theory Spec2Isabelle
  imports Main "HOL-Library.Sublist" "HOL-Library.AList"
begin

section \<open>Shared types and errors\<close>

text \<open>
  The Go packages \<^verbatim>\<open>ipam\<close> and \<open>store\<close> of fusis, embedded as HOL functions.
  Errors are values: the two sentinel errors of the packages, the sentinel of the
  key-value layer, an error handed back by a foreign library, the result of
  \<^verbatim>\<open>errors.Wrap(err, msg)\<close>, which is a new error value distinct from every sentinel,
  and a run-time panic.
\<close>

datatype error =
    ErrNoVipAvailable
  | ErrUnsupportedStore
  | ErrKeyNotFound
  | Foreign string
  | Wrap error string
  | Panic string

text \<open>
  Modelled from the spec: the package \<^verbatim>\<open>api/types\<close> (the declarations of Service and
  Destination and their \<^verbatim>\<open>GetId\<close> methods) is not among the source files. The spec
  gives a Service an identity \<open>ID\<close>, the assigned VIP \<open>Host\<close> (empty until allocated)
  and the scheduling attributes port, protocol and scheduler; a Destination an identity
  scoped under its service.
\<close>

record Service =
  ID :: string
  Host :: string
  Port :: nat
  Protocol :: string
  Scheduler :: string

record Destination =
  DstID :: string
  DstHost :: string
  DstPort :: nat

definition GetId :: "Service \<Rightarrow> string" where
  "GetId svc = ID svc"

definition Dst_GetId :: "Destination \<Rightarrow> string" where
  "Dst_GetId dst = DstID dst"

text \<open>The zero values \<^verbatim>\<open>types.Service{}\<close> and \<^verbatim>\<open>types.Destination{}\<close>.\<close>

definition zero_Service :: Service where
  "zero_Service = \<lparr>ID = [], Host = [], Port = 0, Protocol = [], Scheduler = []\<rparr>"

definition zero_Destination :: Destination where
  "zero_Destination = \<lparr>DstID = [], DstHost = [], DstPort = 0\<rparr>"

text \<open>
  Modelled from the spec: the package \<^verbatim>\<open>config\<close> is not among the source files; only
  the two fields the code reads are kept.
\<close>

record BalancerConfig =
  StoreAddress :: string
  Ranges :: "string list"

section \<open>ipam: the address range cursor\<close>

text \<open>
  \<^verbatim>\<open>ipaddr.Cursor\<close> (github.com/mikioh/ipaddr) is a foreign library: a movable indicator on
  the addresses of the parsed range. The model keeps the addresses of the range in range
  order, each as the text \<^verbatim>\<open>IP.String()\<close> prints, and the index of the current position.
  A position is an index into that list.
  \<^item> \<^verbatim>\<open>First()\<close> is the start position;
  \<^item> \<^verbatim>\<open>Next()\<close> "turns to the next position; it returns nil at the end": it first moves
    and then returns the position it moved to, so the position the cursor stands on when
    \<^verbatim>\<open>Next\<close> is called is not returned; at the end the cursor stays where it is;
  \<^item> \<^verbatim>\<open>Set(pos)\<close> moves to \<open>pos\<close>, or fails ("position out of range") and moves nothing.
\<close>

type_synonym Position = nat

record Cursor =
  addrs :: "string list"
  curr :: nat

definition Cursor_First :: "Cursor \<Rightarrow> Position" where
  "Cursor_First c = 0"

definition Cursor_Next :: "Cursor \<Rightarrow> Position option \<times> Cursor" where
  "Cursor_Next c =
     (if Suc (curr c) < length (addrs c)
      then (Some (Suc (curr c)), c\<lparr>curr := Suc (curr c)\<rparr>)
      else (None, c))"

definition Cursor_Set :: "Position \<Rightarrow> Cursor \<Rightarrow> error option \<times> Cursor" where
  "Cursor_Set pos c =
     (if pos < length (addrs c) then (None, c\<lparr>curr := pos\<rparr>)
      else (Some (Foreign ''position out of range''), c))"

definition IP_String :: "Cursor \<Rightarrow> Position \<Rightarrow> string" where
  "IP_String c pos = addrs c ! pos"

section \<open>ipam: the allocator\<close>

text \<open>
  \<^verbatim>\<open>state.GetServices()\<close> belongs to the package \<^verbatim>\<open>state\<close>, which is not among the source
  files: the allocator's \<open>state\<close> field is the list of services it returns.
\<close>

record Ipam =
  rangeCursor :: Cursor
  state :: "Service list"
  config :: BalancerConfig

text \<open>
  \<^verbatim>\<open>ipam.New\<close>: \<^verbatim>\<open>ipaddr.Parse\<close> is foreign and taken as a parameter; it gives a cursor
  on the start position of the parsed range. Indexing an empty \<^verbatim>\<open>Ranges\<close> panics.
\<close>

definition Ipam_New ::
  "(string \<Rightarrow> error + Cursor) \<Rightarrow> Service list \<Rightarrow> BalancerConfig \<Rightarrow> error + Ipam" where
  "Ipam_New ipaddr_Parse st cfg =
     (case Ranges cfg of
        [] \<Rightarrow> Inl (Panic ''index out of range'')
      | r # _ \<Rightarrow>
          (case ipaddr_Parse r of
             Inl err \<Rightarrow> Inl err
           | Inr rc \<Rightarrow> Inr \<lparr>rangeCursor = rc, state = st, config = cfg\<rparr>))"

text \<open>\<^verbatim>\<open>ipIsAssigned\<close>: the linear scan over the known services.\<close>

fun ipIsAssigned :: "string \<Rightarrow> Service list \<Rightarrow> bool" where
  "ipIsAssigned e [] = False"
| "ipIsAssigned e (a # services) = (if Host a = e then True else ipIsAssigned e services)"

text \<open>
  \<^verbatim>\<open>AllocateVIP\<close>: the loop \<^verbatim>\<open>for pos := Next(); pos != nil; pos = Next()\<close>. The service is
  passed by pointer and the cursor is mutated in place, so the function returns the error
  (\<open>None\<close> for \<^verbatim>\<open>nil\<close>), the service and the allocator after the call. The error that
  \<^verbatim>\<open>Set\<close> returns is dropped, as in the source.
\<close>

function AllocateVIP :: "Ipam \<Rightarrow> Service \<Rightarrow> error option \<times> Service \<times> Ipam" where
  "AllocateVIP i s =
     (case Cursor_Next (rangeCursor i) of
        (None, c) \<Rightarrow> (Some ErrNoVipAvailable, s, i\<lparr>rangeCursor := c\<rparr>)
      | (Some pos, c) \<Rightarrow>
          (if \<not> ipIsAssigned (IP_String c pos) (state i)
           then (None, s\<lparr>Host := IP_String c pos\<rparr>,
                 i\<lparr>rangeCursor := snd (Cursor_Set (Cursor_First c) c)\<rparr>)
           else AllocateVIP (i\<lparr>rangeCursor := c\<rparr>) s))"
  by pat_completeness auto
termination
  by (relation "measure (\<lambda>(i, s). length (addrs (rangeCursor i)) - curr (rangeCursor i))")
     (auto simp: Cursor_Next_def split: if_splits)

text \<open>\<^verbatim>\<open>ReleaseVIP\<close> is a placeholder that returns \<^verbatim>\<open>nil\<close>.\<close>

definition ReleaseVIP :: "Ipam \<Rightarrow> Service \<Rightarrow> error option" where
  "ReleaseVIP i s = None"

section \<open>store: the key-value capability\<close>

text \<open>
  The store talks to a foreign key-value library (libkv) through \<^verbatim>\<open>Put\<close>,
  \<^verbatim>\<open>DeleteTree\<close> and \<^verbatim>\<open>WatchTree\<close>. The model keeps the stored pairs as an association
  list from keys to byte strings. \<^verbatim>\<open>Put\<close> writes or overwrites one key; \<^verbatim>\<open>DeleteTree\<close>
  removes every key that has the given prefix (the spec's subtree delete: "a key and all
  keys sharing its prefix") and fails with the library's key-not-found error when there
  is none.
\<close>

record KVPair =
  Key :: string
  Value :: string

type_synonym kvstore = "(string \<times> string) list"

definition kv_Put :: "string \<Rightarrow> string \<Rightarrow> kvstore \<Rightarrow> error + kvstore" where
  "kv_Put key val kv = Inr (AList.update key val kv)"

definition kv_DeleteTree :: "string \<Rightarrow> kvstore \<Rightarrow> error + kvstore" where
  "kv_DeleteTree directory kv =
     (if list_ex (\<lambda>(k, v). prefix directory k) kv
      then Inr (filter (\<lambda>(k, v). \<not> prefix directory k) kv)
      else Inl ErrKeyNotFound)"

section \<open>store: construction\<close>

text \<open>
  A channel is known by its identity; the store keeps the registered channels of each
  entity kind in registration order.
\<close>

type_synonym chan = nat

record FusisStore =
  kv :: kvstore
  servicesChannels :: "chan list"
  destinationChannels :: "chan list"
  checksChannels :: "chan list"

text \<open>
  \<^verbatim>\<open>url.Parse\<close> (net/url) and \<^verbatim>\<open>libkv.NewStore\<close> are foreign: \<open>New\<close> takes them as
  parameters. Of the parsed URL only the scheme and the host are read. The two watch
  loops that \<open>New\<close> starts in the background are modelled below, one cycle at a time.
\<close>

record URL =
  Scheme :: string
  URL_Host :: string

definition New ::
  "(string \<Rightarrow> error + URL) \<Rightarrow> (string \<Rightarrow> string list \<Rightarrow> error + kvstore) \<Rightarrow>
   BalancerConfig \<Rightarrow> error + FusisStore" where
  "New url_Parse libkv_NewStore cfg =
     (case url_Parse (StoreAddress cfg) of
        Inl err \<Rightarrow> Inl (Wrap err ''error paring store address'')
      | Inr u \<Rightarrow>
          (let scheme = Scheme u in
           if scheme \<noteq> ''consul'' \<and> scheme \<noteq> ''etcd'' then Inl ErrUnsupportedStore
           else
             (case libkv_NewStore scheme [URL_Host u] of
                Inl err \<Rightarrow> Inl (Wrap err ''Cannot create store consul'')
              | Inr k \<Rightarrow>
                  Inr \<lparr>kv = k, servicesChannels = [], destinationChannels = [],
                       checksChannels = []\<rparr>)))"

definition GetKV :: "FusisStore \<Rightarrow> kvstore" where
  "GetKV s = kv s"

section \<open>store: writing and deleting entities\<close>

text \<open>
  \<^verbatim>\<open>json.Marshal\<close> (encoding/json) is foreign: the add operations take it as the
  parameter \<open>marshal\<close>. The keys are the results of the \<^verbatim>\<open>fmt.Sprintf\<close> calls.
\<close>

definition AddService ::
  "(Service \<Rightarrow> error + string) \<Rightarrow> Service \<Rightarrow> FusisStore \<Rightarrow> error + FusisStore" where
  "AddService marshal svc s =
     (let key = ''fusis/services/'' @ GetId svc @ ''/config'' in
      case marshal svc of
        Inl err \<Rightarrow> Inl (Wrap err ''error marshaling service'')
      | Inr val \<Rightarrow>
          (case kv_Put key val (kv s) of
             Inl err \<Rightarrow> Inl (Wrap err ''error sending service to store'')
           | Inr k \<Rightarrow> Inr (s\<lparr>kv := k\<rparr>)))"

definition DeleteService :: "Service \<Rightarrow> FusisStore \<Rightarrow> error + FusisStore" where
  "DeleteService svc s =
     (let key = ''fusis/services/'' @ GetId svc in
      case kv_DeleteTree key (kv s) of
        Inl err \<Rightarrow> Inl (Wrap err ''error trying to delete service'')
      | Inr k \<Rightarrow> Inr (s\<lparr>kv := k\<rparr>))"

definition AddDestination ::
  "(Destination \<Rightarrow> error + string) \<Rightarrow> Service \<Rightarrow> Destination \<Rightarrow> FusisStore \<Rightarrow>
   error + FusisStore" where
  "AddDestination marshal svc dst s =
     (let key = ''fusis/destinations/'' @ GetId svc @ ''/'' @ Dst_GetId dst in
      case marshal dst of
        Inl err \<Rightarrow> Inl (Wrap err ''error marshaling destination'')
      | Inr val \<Rightarrow>
          (case kv_Put key val (kv s) of
             Inl err \<Rightarrow> Inl (Wrap err ''error sending destination to store'')
           | Inr k \<Rightarrow> Inr (s\<lparr>kv := k\<rparr>)))"

definition DeleteDestination :: "Service \<Rightarrow> Destination \<Rightarrow> FusisStore \<Rightarrow> error + FusisStore" where
  "DeleteDestination svc dst s =
     (let key = ''fusis/destinations/'' @ GetId svc @ ''/'' @ Dst_GetId dst in
      case kv_DeleteTree key (kv s) of
        Inl err \<Rightarrow> Inl (Wrap err ''error trying to delete destination'')
      | Inr k \<Rightarrow> Inr (s\<lparr>kv := k\<rparr>))"

section \<open>store: subscribers and the watch loops\<close>

definition SubscribeServices :: "chan \<Rightarrow> FusisStore \<Rightarrow> FusisStore" where
  "SubscribeServices updateCh s = s\<lparr>servicesChannels := servicesChannels s @ [updateCh]\<rparr>"

definition SubscribeDestinations :: "chan \<Rightarrow> FusisStore \<Rightarrow> FusisStore" where
  "SubscribeDestinations updateCh s =
     s\<lparr>destinationChannels := destinationChannels s @ [updateCh]\<rparr>"

definition SubscribeChecks :: "chan \<Rightarrow> FusisStore \<Rightarrow> FusisStore" where
  "SubscribeChecks updateCh s = s\<lparr>checksChannels := checksChannels s @ [updateCh]\<rparr>"

text \<open>
  The state of a watch loop: the working slice (\<^verbatim>\<open>svcs\<close>, \<^verbatim>\<open>dsts\<close>), the sends it has
  performed so far (the channel and the slice sent, oldest first) and the errors it has
  logged. A send is recorded when it is made; that a receiver takes it is outside the
  model.
\<close>

record 'a Watch =
  buf :: "'a list"
  sent :: "(chan \<times> 'a list) list"
  logged :: "error list"

text \<open>
  \<^verbatim>\<open>json.Unmarshal(pair.Value, &svc)\<close> is foreign: \<open>unmarshal\<close> takes the bytes and the
  value \<^verbatim>\<open>svc\<close> points to, and returns what it left there together with its error.
  The inner loop \<^verbatim>\<open>for _, pair := range entries\<close> of \<^verbatim>\<open>WatchServices\<close>: the error is
  logged, and the append that follows is outside the \<^verbatim>\<open>if\<close>.
\<close>

fun WatchServices_entries ::
  "(string \<Rightarrow> Service \<Rightarrow> Service \<times> error option) \<Rightarrow> KVPair list \<Rightarrow>
   Service Watch \<Rightarrow> Service Watch" where
  "WatchServices_entries unmarshal [] w = w"
| "WatchServices_entries unmarshal (pair # entries) w =
     (let (svc, err) = unmarshal (Value pair) zero_Service;
          w1 = (case err of Some e \<Rightarrow> w\<lparr>logged := logged w @ [e]\<rparr> | None \<Rightarrow> w)
      in WatchServices_entries unmarshal entries (w1\<lparr>buf := buf w1 @ [svc]\<rparr>))"

text \<open>
  The same loop of \<^verbatim>\<open>WatchDestinations\<close>: the result of \<^verbatim>\<open>errors.Wrap\<close> is dropped, so
  nothing is logged.
\<close>

fun WatchDestinations_entries ::
  "(string \<Rightarrow> Destination \<Rightarrow> Destination \<times> error option) \<Rightarrow> KVPair list \<Rightarrow>
   Destination Watch \<Rightarrow> Destination Watch" where
  "WatchDestinations_entries unmarshal [] w = w"
| "WatchDestinations_entries unmarshal (pair # entries) w =
     (let (dst, err) = unmarshal (Value pair) zero_Destination
      in WatchDestinations_entries unmarshal entries (w\<lparr>buf := buf w @ [dst]\<rparr>))"

text \<open>The loop \<^verbatim>\<open>for _, ch := range channels { ch <- svcs }\<close>, run under the lock.\<close>

fun broadcast :: "chan list \<Rightarrow> 'a list \<Rightarrow> 'a Watch \<Rightarrow> 'a Watch" where
  "broadcast [] snapshot w = w"
| "broadcast (ch # chs) snapshot w = broadcast chs snapshot (w\<lparr>sent := sent w @ [(ch, snapshot)]\<rparr>)"

text \<open>
  One iteration of the \<^verbatim>\<open>for { select { case entries := <-events: ... } }\<close> loop: decode
  the batch, send the slice to every registered channel, start a new slice.
\<close>

definition WatchServices_cycle ::
  "(string \<Rightarrow> Service \<Rightarrow> Service \<times> error option) \<Rightarrow> FusisStore \<Rightarrow> KVPair list \<Rightarrow>
   Service Watch \<Rightarrow> Service Watch" where
  "WatchServices_cycle unmarshal s entries w =
     (let w1 = WatchServices_entries unmarshal entries w;
          w2 = broadcast (servicesChannels s) (buf w1) w1
      in w2\<lparr>buf := []\<rparr>)"

definition WatchDestinations_cycle ::
  "(string \<Rightarrow> Destination \<Rightarrow> Destination \<times> error option) \<Rightarrow> FusisStore \<Rightarrow> KVPair list \<Rightarrow>
   Destination Watch \<Rightarrow> Destination Watch" where
  "WatchDestinations_cycle unmarshal s entries w =
     (let w1 = WatchDestinations_entries unmarshal entries w;
          w2 = broadcast (destinationChannels s) (buf w1) w1
      in w2\<lparr>buf := []\<rparr>)"

text \<open>
  The loops never return. \<^verbatim>\<open>WatchTree\<close> (foreign) either fails or gives the channel of
  batches: \<open>watchTree\<close> is its error, or the batches received so far. On a failure
  \<^verbatim>\<open>WatchServices\<close> logs the error (\<^verbatim>\<open>WatchDestinations\<close> drops it) and the loop waits on
  a channel that delivers nothing. Otherwise the loop runs one cycle for each batch,
  starting from the empty slice.
\<close>

definition WatchServices ::
  "(string \<Rightarrow> Service \<Rightarrow> Service \<times> error option) \<Rightarrow> FusisStore \<Rightarrow>
   error + KVPair list list \<Rightarrow> Service Watch" where
  "WatchServices unmarshal s watchTree =
     (case watchTree of
        Inl err \<Rightarrow> \<lparr>buf = [], sent = [], logged = [err]\<rparr>
      | Inr events \<Rightarrow>
          foldl (\<lambda>w entries. WatchServices_cycle unmarshal s entries w)
            \<lparr>buf = [], sent = [], logged = []\<rparr> events)"

definition WatchDestinations ::
  "(string \<Rightarrow> Destination \<Rightarrow> Destination \<times> error option) \<Rightarrow> FusisStore \<Rightarrow>
   error + KVPair list list \<Rightarrow> Destination Watch" where
  "WatchDestinations unmarshal s watchTree =
     (case watchTree of
        Inl err \<Rightarrow> \<lparr>buf = [], sent = [], logged = []\<rparr>
      | Inr events \<Rightarrow>
          foldl (\<lambda>w entries. WatchDestinations_cycle unmarshal s entries w)
            \<lparr>buf = [], sent = [], logged = []\<rparr> events)"

section \<open>Lemmas on the allocator\<close>

text \<open>
  The recursion equation of \<open>AllocateVIP\<close> unfolds without end, so it leaves the
  simplifier; the lemma \<open>AllocateVIP_scan\<close> below says what the loop computes.
\<close>

declare AllocateVIP.simps [simp del]

lemma ipIsAssigned_iff: "ipIsAssigned e svcs \<longleftrightarrow> e \<in> Host ` set svcs"
  by (induction svcs) auto

text \<open>
  The loop looks at the addresses after the cursor's position, in range order, and stops
  at the first that no known service has. On success the cursor is back on the start
  position; on failure it is on the last address of the range (or where it was, when it
  already stood there).
\<close>

lemma AllocateVIP_scan:
  "AllocateVIP i s =
     (case find (\<lambda>a. \<not> ipIsAssigned a (state i))
             (drop (Suc (curr (rangeCursor i))) (addrs (rangeCursor i))) of
        None \<Rightarrow> (Some ErrNoVipAvailable, s,
                 i\<lparr>rangeCursor := (rangeCursor i)
                     \<lparr>curr := max (curr (rangeCursor i)) (length (addrs (rangeCursor i)) - 1)\<rparr>\<rparr>)
      | Some a \<Rightarrow> (None, s\<lparr>Host := a\<rparr>, i\<lparr>rangeCursor := (rangeCursor i)\<lparr>curr := 0\<rparr>\<rparr>))"
proof (induction i s rule: AllocateVIP.induct)
  case (1 i s)
  let ?c = "rangeCursor i"
  show ?case
  proof (cases "Suc (curr ?c) < length (addrs ?c)")
    case False
    then have "drop (Suc (curr ?c)) (addrs ?c) = []" by simp
    moreover from False have "max (curr ?c) (length (addrs ?c) - 1) = curr ?c" by simp
    ultimately show ?thesis using False
      by (subst AllocateVIP.simps) (simp add: Cursor_Next_def)
  next
    case True
    let ?c' = "?c\<lparr>curr := Suc (curr ?c)\<rparr>"
    have nxt: "Cursor_Next ?c = (Some (Suc (curr ?c)), ?c')"
      using True by (simp add: Cursor_Next_def)
    have dr: "drop (Suc (curr ?c)) (addrs ?c) =
        addrs ?c ! Suc (curr ?c) # drop (Suc (Suc (curr ?c))) (addrs ?c)"
      using True by (simp add: Cons_nth_drop_Suc)
    show ?thesis
    proof (cases "ipIsAssigned (addrs ?c ! Suc (curr ?c)) (state i)")
      case False
      moreover from True have "addrs ?c \<noteq> []" by auto
      ultimately show ?thesis using True
        by (subst AllocateVIP.simps)
           (simp add: nxt dr IP_String_def Cursor_Set_def Cursor_First_def)
    next
      case assigned: True
      have ih: "AllocateVIP (i\<lparr>rangeCursor := ?c'\<rparr>) s =
         (case find (\<lambda>a. \<not> ipIsAssigned a (state i)) (drop (Suc (Suc (curr ?c))) (addrs ?c)) of
            None \<Rightarrow> (Some ErrNoVipAvailable, s,
               i\<lparr>rangeCursor := ?c\<lparr>curr := max (Suc (curr ?c)) (length (addrs ?c) - 1)\<rparr>\<rparr>)
          | Some a \<Rightarrow> (None, s\<lparr>Host := a\<rparr>, i\<lparr>rangeCursor := ?c\<lparr>curr := 0\<rparr>\<rparr>))"
        using "1.IH"[OF nxt[symmetric] refl] assigned
        by (simp add: IP_String_def split: option.split)
      have mx: "max (Suc (curr ?c)) (length (addrs ?c) - Suc 0) =
          max (curr ?c) (length (addrs ?c) - Suc 0)"
        using True by simp
      show ?thesis using assigned
        by (subst AllocateVIP.simps) (simp add: nxt dr IP_String_def ih mx split: option.split)
    qed
  qed
qed


lemma find_free_cong:
  "find (\<lambda>a. \<not> ipIsAssigned a svcs) xs = find (\<lambda>a. a \<notin> Host ` set svcs) xs"
  by (simp add: ipIsAssigned_iff)

section \<open>Claims on the allocator\<close>

text \<open>
  Claim C3, as amended. \<open>AllocateVIP\<close> scans the addresses that follow the cursor's
  current position, in range order: when \<open>a\<close> is the first of them that is not the
  \<open>Host\<close> of any known service, the call returns \<^verbatim>\<open>nil\<close>, the service's \<open>Host\<close> is
  \<open>a\<close>, and the cursor is set to the start position. From the start position the
  addresses scanned are all but the first of the range, which \<^verbatim>\<open>Next\<close> steps over.
\<close>

theorem AllocateVIP_first_free_after_cursor:
  assumes "find (\<lambda>a. a \<notin> Host ` set (state i))
             (drop (Suc (curr (rangeCursor i))) (addrs (rangeCursor i))) = Some a"
  shows "AllocateVIP i s =
           (None, s\<lparr>Host := a\<rparr>,
            i\<lparr>rangeCursor := (rangeCursor i)\<lparr>curr := Cursor_First (rangeCursor i)\<rparr>\<rparr>)"
  using assms by (simp add: AllocateVIP_scan find_free_cong Cursor_First_def)

text \<open>
  The spec's scenario as the witness: the range \<open>10.0.0.1\<close> to \<open>10.0.0.3\<close> with
  \<open>10.0.0.1\<close> taken gives \<open>10.0.0.2\<close>.
\<close>

theorem AllocateVIP_first_free_after_cursor_witness:
  "find (\<lambda>a. a \<notin> Host ` set [zero_Service\<lparr>Host := ''10.0.0.1''\<rparr>])
     (drop (Suc 0) [''10.0.0.1'', ''10.0.0.2'', ''10.0.0.3'']) = Some ''10.0.0.2'' \<and>
   AllocateVIP
     \<lparr>rangeCursor = \<lparr>addrs = [''10.0.0.1'', ''10.0.0.2'', ''10.0.0.3''], curr = 0\<rparr>,
      state = [zero_Service\<lparr>Host := ''10.0.0.1''\<rparr>],
      config = \<lparr>StoreAddress = ''consul://localhost:8500'', Ranges = [''10.0.0.1,10.0.0.2,10.0.0.3'']\<rparr>\<rparr>
     (zero_Service\<lparr>ID := ''web''\<rparr>) =
   (None, zero_Service\<lparr>ID := ''web'', Host := ''10.0.0.2''\<rparr>,
    \<lparr>rangeCursor = \<lparr>addrs = [''10.0.0.1'', ''10.0.0.2'', ''10.0.0.3''], curr = 0\<rparr>,
      state = [zero_Service\<lparr>Host := ''10.0.0.1''\<rparr>],
      config = \<lparr>StoreAddress = ''consul://localhost:8500'', Ranges = [''10.0.0.1,10.0.0.2,10.0.0.3'']\<rparr>\<rparr>)"
proof -
  have h: "find (\<lambda>a. a \<notin> Host ` set [zero_Service\<lparr>Host := ''10.0.0.1''\<rparr>])
     (drop (Suc 0) [''10.0.0.1'', ''10.0.0.2'', ''10.0.0.3'']) = Some ''10.0.0.2''"
    by (simp add: zero_Service_def)
  show ?thesis
    using h AllocateVIP_first_free_after_cursor
      [of "\<lparr>rangeCursor = \<lparr>addrs = [''10.0.0.1'', ''10.0.0.2'', ''10.0.0.3''], curr = 0\<rparr>,
      state = [zero_Service\<lparr>Host := ''10.0.0.1''\<rparr>],
      config = \<lparr>StoreAddress = ''consul://localhost:8500'', Ranges = [''10.0.0.1,10.0.0.2,10.0.0.3'']\<rparr>\<rparr>"
        "''10.0.0.2''" "zero_Service\<lparr>ID := ''web''\<rparr>"]
    by (simp add: Cursor_First_def)
qed

text \<open>
  Claim C3 as stated fails. With no known service, the first address of the range,
  \<open>10.0.0.1\<close>, is unassigned, and the call assigns \<open>10.0.0.2\<close>. With \<open>10.0.0.2\<close> and
  \<open>10.0.0.3\<close> taken, \<open>10.0.0.1\<close> is unassigned and the call returns
  \<open>ErrNoVipAvailable\<close>. With the cursor on the last address, where a failed call leaves
  it, the call returns \<open>ErrNoVipAvailable\<close> though no address of the range is assigned.
\<close>

theorem AllocateVIP_first_of_range_counterexample:
  "AllocateVIP
     \<lparr>rangeCursor = \<lparr>addrs = [''10.0.0.1'', ''10.0.0.2'', ''10.0.0.3''], curr = 0\<rparr>,
      state = [],
      config = \<lparr>StoreAddress = ''consul://localhost:8500'', Ranges = [''10.0.0.1,10.0.0.2,10.0.0.3'']\<rparr>\<rparr>
     zero_Service =
   (None, zero_Service\<lparr>Host := ''10.0.0.2''\<rparr>,
    \<lparr>rangeCursor = \<lparr>addrs = [''10.0.0.1'', ''10.0.0.2'', ''10.0.0.3''], curr = 0\<rparr>,
      state = [],
      config = \<lparr>StoreAddress = ''consul://localhost:8500'', Ranges = [''10.0.0.1,10.0.0.2,10.0.0.3'']\<rparr>\<rparr>) \<and>
   \<not> ipIsAssigned ''10.0.0.1'' [] \<and>
   ''10.0.0.1'' \<noteq> ''10.0.0.2'' \<and>
   fst (AllocateVIP
     \<lparr>rangeCursor = \<lparr>addrs = [''10.0.0.1'', ''10.0.0.2'', ''10.0.0.3''], curr = 0\<rparr>,
      state = [zero_Service\<lparr>Host := ''10.0.0.2''\<rparr>, zero_Service\<lparr>Host := ''10.0.0.3''\<rparr>],
      config = \<lparr>StoreAddress = ''consul://localhost:8500'', Ranges = [''10.0.0.1,10.0.0.2,10.0.0.3'']\<rparr>\<rparr>
     zero_Service) = Some ErrNoVipAvailable \<and>
   \<not> ipIsAssigned ''10.0.0.1''
       [zero_Service\<lparr>Host := ''10.0.0.2''\<rparr>, zero_Service\<lparr>Host := ''10.0.0.3''\<rparr>] \<and>
   fst (AllocateVIP
     \<lparr>rangeCursor = \<lparr>addrs = [''10.0.0.1'', ''10.0.0.2'', ''10.0.0.3''], curr = 2\<rparr>,
      state = [],
      config = \<lparr>StoreAddress = ''consul://localhost:8500'', Ranges = [''10.0.0.1,10.0.0.2,10.0.0.3'']\<rparr>\<rparr>
     zero_Service) = Some ErrNoVipAvailable"
  by (simp add: AllocateVIP_scan zero_Service_def)

text \<open>
  Claim C6. When every address of the range is the \<open>Host\<close> of a known service (as
  when K services occupy the K addresses of the range), \<open>AllocateVIP\<close> returns
  \<open>ErrNoVipAvailable\<close>, wherever the cursor stands.
\<close>

theorem AllocateVIP_exhausted:
  assumes "set (addrs (rangeCursor i)) \<subseteq> Host ` set (state i)"
  shows "fst (AllocateVIP i s) = Some ErrNoVipAvailable"
proof -
  have "find (\<lambda>a. \<not> ipIsAssigned a (state i))
          (drop (Suc (curr (rangeCursor i))) (addrs (rangeCursor i))) = None"
    using assms by (auto simp: find_None_iff ipIsAssigned_iff dest!: in_set_dropD)
  then show ?thesis by (simp add: AllocateVIP_scan)
qed

theorem AllocateVIP_exhausted_witness:
  "set [''10.0.0.1'', ''10.0.0.2''] \<subseteq>
     Host ` set [zero_Service\<lparr>ID := ''a'', Host := ''10.0.0.2''\<rparr>,
                 zero_Service\<lparr>ID := ''b'', Host := ''10.0.0.1''\<rparr>] \<and>
   fst (AllocateVIP
     \<lparr>rangeCursor = \<lparr>addrs = [''10.0.0.1'', ''10.0.0.2''], curr = 0\<rparr>,
      state = [zero_Service\<lparr>ID := ''a'', Host := ''10.0.0.2''\<rparr>,
               zero_Service\<lparr>ID := ''b'', Host := ''10.0.0.1''\<rparr>],
      config = \<lparr>StoreAddress = ''etcd://localhost:2379'', Ranges = [''10.0.0.1,10.0.0.2'']\<rparr>\<rparr>
     (zero_Service\<lparr>ID := ''c''\<rparr>)) = Some ErrNoVipAvailable"
  using AllocateVIP_exhausted [of "\<lparr>rangeCursor = \<lparr>addrs = [''10.0.0.1'', ''10.0.0.2''], curr = 0\<rparr>,
      state = [zero_Service\<lparr>ID := ''a'', Host := ''10.0.0.2''\<rparr>,
               zero_Service\<lparr>ID := ''b'', Host := ''10.0.0.1''\<rparr>],
      config = \<lparr>StoreAddress = ''etcd://localhost:2379'', Ranges = [''10.0.0.1,10.0.0.2'']\<rparr>\<rparr>" "zero_Service\<lparr>ID := ''c''\<rparr>"]
  by (simp add: zero_Service_def)

text \<open>
  Claim C7. Whenever \<open>AllocateVIP\<close> succeeds, the \<open>Host\<close> it has given the service
  differs from the \<open>Host\<close> of every service of the snapshot.
\<close>

theorem AllocateVIP_excludes_assigned:
  assumes "AllocateVIP i s = (None, s', i')"
  shows "\<forall>a \<in> set (state i). Host a \<noteq> Host s'"
proof (cases "find (\<lambda>a. \<not> ipIsAssigned a (state i))
          (drop (Suc (curr (rangeCursor i))) (addrs (rangeCursor i)))")
  case None
  with assms show ?thesis by (simp add: AllocateVIP_scan)
next
  case (Some a)
  then have "\<not> ipIsAssigned a (state i)" by (auto simp: find_Some_iff)
  moreover from Some assms have "s' = s\<lparr>Host := a\<rparr>" by (simp add: AllocateVIP_scan)
  ultimately show ?thesis by (auto simp: ipIsAssigned_iff)
qed

theorem AllocateVIP_excludes_assigned_witness:
  "AllocateVIP
     \<lparr>rangeCursor = \<lparr>addrs = [''10.0.0.1'', ''10.0.0.2'', ''10.0.0.3''], curr = 0\<rparr>,
      state = [zero_Service\<lparr>Host := ''10.0.0.1''\<rparr>],
      config = \<lparr>StoreAddress = ''consul://localhost:8500'', Ranges = [''10.0.0.1,10.0.0.2,10.0.0.3'']\<rparr>\<rparr>
     (zero_Service\<lparr>ID := ''web''\<rparr>) =
   (None, zero_Service\<lparr>ID := ''web'', Host := ''10.0.0.2''\<rparr>,
     \<lparr>rangeCursor = \<lparr>addrs = [''10.0.0.1'', ''10.0.0.2'', ''10.0.0.3''], curr = 0\<rparr>,
      state = [zero_Service\<lparr>Host := ''10.0.0.1''\<rparr>],
      config = \<lparr>StoreAddress = ''consul://localhost:8500'', Ranges = [''10.0.0.1,10.0.0.2,10.0.0.3'']\<rparr>\<rparr>) \<and>
   Host (zero_Service\<lparr>Host := ''10.0.0.1''\<rparr>) \<noteq>
     Host (zero_Service\<lparr>ID := ''web'', Host := ''10.0.0.2''\<rparr>)"
proof -
  have h: "AllocateVIP
     \<lparr>rangeCursor = \<lparr>addrs = [''10.0.0.1'', ''10.0.0.2'', ''10.0.0.3''], curr = 0\<rparr>,
      state = [zero_Service\<lparr>Host := ''10.0.0.1''\<rparr>],
      config = \<lparr>StoreAddress = ''consul://localhost:8500'', Ranges = [''10.0.0.1,10.0.0.2,10.0.0.3'']\<rparr>\<rparr>
     (zero_Service\<lparr>ID := ''web''\<rparr>) =
   (None, zero_Service\<lparr>ID := ''web'', Host := ''10.0.0.2''\<rparr>,
     \<lparr>rangeCursor = \<lparr>addrs = [''10.0.0.1'', ''10.0.0.2'', ''10.0.0.3''], curr = 0\<rparr>,
      state = [zero_Service\<lparr>Host := ''10.0.0.1''\<rparr>],
      config = \<lparr>StoreAddress = ''consul://localhost:8500'', Ranges = [''10.0.0.1,10.0.0.2,10.0.0.3'']\<rparr>\<rparr>)"
    by (simp add: AllocateVIP_scan zero_Service_def)
  show ?thesis using h AllocateVIP_excludes_assigned [OF h] by simp
qed

text \<open>
  Claim C8, as amended. After a successful \<open>AllocateVIP\<close> the cursor is on the start
  position of the range. When the call started from the start position, the address it
  assigned is the first address after the first one of the range, in range order, that
  is not the \<open>Host\<close> of any known service; and a second call on the allocator it left
  (the snapshot unchanged) succeeds with that same address, for whichever service \<open>t\<close>
  it is made.
\<close>

theorem AllocateVIP_resets_cursor:
  assumes "AllocateVIP i s = (None, s', i')"
  shows "curr (rangeCursor i') = Cursor_First (rangeCursor i') \<and>
         (curr (rangeCursor i) = Cursor_First (rangeCursor i) \<longrightarrow>
            find (\<lambda>a. a \<notin> Host ` set (state i)) (tl (addrs (rangeCursor i))) = Some (Host s') \<and>
            AllocateVIP i' t = (None, t\<lparr>Host := Host s'\<rparr>, i'))"
proof (cases "find (\<lambda>a. \<not> ipIsAssigned a (state i))
          (drop (Suc (curr (rangeCursor i))) (addrs (rangeCursor i)))")
  case None
  with assms show ?thesis by (simp add: AllocateVIP_scan)
next
  case (Some a)
  with assms have s': "s' = s\<lparr>Host := a\<rparr>"
    and i': "i' = i\<lparr>rangeCursor := (rangeCursor i)\<lparr>curr := 0\<rparr>\<rparr>"
    by (simp_all add: AllocateVIP_scan)
  have first: "curr (rangeCursor i') = Cursor_First (rangeCursor i')"
    by (simp add: i' Cursor_First_def)
  have again: "find (\<lambda>a. a \<notin> Host ` set (state i)) (tl (addrs (rangeCursor i))) = Some (Host s') \<and>
      AllocateVIP i' t = (None, t\<lparr>Host := Host s'\<rparr>, i')"
    if "curr (rangeCursor i) = Cursor_First (rangeCursor i)"
  proof -
    from that have start: "curr (rangeCursor i) = 0" by (simp add: Cursor_First_def)
    then have same: "i' = i" by (simp add: i')
    from Some start have "find (\<lambda>a. \<not> ipIsAssigned a (state i)) (tl (addrs (rangeCursor i))) = Some a"
      by (simp add: drop_Suc)
    then have found: "find (\<lambda>a. a \<notin> Host ` set (state i)) (tl (addrs (rangeCursor i))) = Some (Host s')"
      by (simp add: find_free_cong s')
    from Some same have "AllocateVIP i' t = (None, t\<lparr>Host := Host s'\<rparr>, i')"
      by (simp add: AllocateVIP_scan s' i')
    with found show ?thesis by simp
  qed
  from first again show ?thesis by blast
qed

text \<open>
  The witness: the range \<open>10.0.0.1\<close> to \<open>10.0.0.3\<close> with \<open>10.0.0.2\<close> taken. Both calls
  give \<open>10.0.0.3\<close>, the first free address after \<open>10.0.0.1\<close>.
\<close>

theorem AllocateVIP_resets_cursor_witness:
  "AllocateVIP
     \<lparr>rangeCursor = \<lparr>addrs = [''10.0.0.1'', ''10.0.0.2'', ''10.0.0.3''], curr = 0\<rparr>,
      state = [zero_Service\<lparr>ID := ''db'', Host := ''10.0.0.2''\<rparr>],
      config = \<lparr>StoreAddress = ''consul://localhost:8500'', Ranges = [''10.0.0.1,10.0.0.2,10.0.0.3'']\<rparr>\<rparr>
     (zero_Service\<lparr>ID := ''web''\<rparr>) =
   (None, zero_Service\<lparr>ID := ''web'', Host := ''10.0.0.3''\<rparr>,
     \<lparr>rangeCursor = \<lparr>addrs = [''10.0.0.1'', ''10.0.0.2'', ''10.0.0.3''], curr = 0\<rparr>,
      state = [zero_Service\<lparr>ID := ''db'', Host := ''10.0.0.2''\<rparr>],
      config = \<lparr>StoreAddress = ''consul://localhost:8500'', Ranges = [''10.0.0.1,10.0.0.2,10.0.0.3'']\<rparr>\<rparr>) \<and>
   curr (rangeCursor (\<lparr>rangeCursor = \<lparr>addrs = [''10.0.0.1'', ''10.0.0.2'', ''10.0.0.3''], curr = 0\<rparr>,
      state = [zero_Service\<lparr>ID := ''db'', Host := ''10.0.0.2''\<rparr>],
      config = \<lparr>StoreAddress = ''consul://localhost:8500'', Ranges = [''10.0.0.1,10.0.0.2,10.0.0.3'']\<rparr>\<rparr>)) = 0 \<and>
   find (\<lambda>a. a \<notin> Host ` set [zero_Service\<lparr>ID := ''db'', Host := ''10.0.0.2''\<rparr>])
     (tl [''10.0.0.1'', ''10.0.0.2'', ''10.0.0.3'']) = Some ''10.0.0.3'' \<and>
   AllocateVIP
     \<lparr>rangeCursor = \<lparr>addrs = [''10.0.0.1'', ''10.0.0.2'', ''10.0.0.3''], curr = 0\<rparr>,
      state = [zero_Service\<lparr>ID := ''db'', Host := ''10.0.0.2''\<rparr>],
      config = \<lparr>StoreAddress = ''consul://localhost:8500'', Ranges = [''10.0.0.1,10.0.0.2,10.0.0.3'']\<rparr>\<rparr>
     (zero_Service\<lparr>ID := ''api''\<rparr>) =
   (None, zero_Service\<lparr>ID := ''api'', Host := ''10.0.0.3''\<rparr>,
     \<lparr>rangeCursor = \<lparr>addrs = [''10.0.0.1'', ''10.0.0.2'', ''10.0.0.3''], curr = 0\<rparr>,
      state = [zero_Service\<lparr>ID := ''db'', Host := ''10.0.0.2''\<rparr>],
      config = \<lparr>StoreAddress = ''consul://localhost:8500'', Ranges = [''10.0.0.1,10.0.0.2,10.0.0.3'']\<rparr>\<rparr>)"
proof -
  have h: "AllocateVIP
     \<lparr>rangeCursor = \<lparr>addrs = [''10.0.0.1'', ''10.0.0.2'', ''10.0.0.3''], curr = 0\<rparr>,
      state = [zero_Service\<lparr>ID := ''db'', Host := ''10.0.0.2''\<rparr>],
      config = \<lparr>StoreAddress = ''consul://localhost:8500'', Ranges = [''10.0.0.1,10.0.0.2,10.0.0.3'']\<rparr>\<rparr>
     (zero_Service\<lparr>ID := ''web''\<rparr>) =
   (None, zero_Service\<lparr>ID := ''web'', Host := ''10.0.0.3''\<rparr>,
     \<lparr>rangeCursor = \<lparr>addrs = [''10.0.0.1'', ''10.0.0.2'', ''10.0.0.3''], curr = 0\<rparr>,
      state = [zero_Service\<lparr>ID := ''db'', Host := ''10.0.0.2''\<rparr>],
      config = \<lparr>StoreAddress = ''consul://localhost:8500'', Ranges = [''10.0.0.1,10.0.0.2,10.0.0.3'']\<rparr>\<rparr>)"
    by (simp add: AllocateVIP_scan zero_Service_def)
  show ?thesis
    using h AllocateVIP_resets_cursor [OF h, of "zero_Service\<lparr>ID := ''api''\<rparr>"]
    by (simp add: Cursor_First_def)
qed

text \<open>
  Claim C8 as stated fails. On a fresh allocator over the range \<open>10.0.0.1\<close> to
  \<open>10.0.0.3\<close> with no known service, two consecutive calls both succeed with
  \<open>10.0.0.2\<close> and leave the cursor on the start position; the first free address of the
  range is \<open>10.0.0.1\<close>, which no known service has.
\<close>

theorem AllocateVIP_same_first_free_counterexample:
  "AllocateVIP
     \<lparr>rangeCursor = \<lparr>addrs = [''10.0.0.1'', ''10.0.0.2'', ''10.0.0.3''], curr = 0\<rparr>,
      state = [],
      config = \<lparr>StoreAddress = ''consul://localhost:8500'', Ranges = [''10.0.0.1,10.0.0.2,10.0.0.3'']\<rparr>\<rparr>
     (zero_Service\<lparr>ID := ''web''\<rparr>) =
   (None, zero_Service\<lparr>ID := ''web'', Host := ''10.0.0.2''\<rparr>,
     \<lparr>rangeCursor = \<lparr>addrs = [''10.0.0.1'', ''10.0.0.2'', ''10.0.0.3''], curr = 0\<rparr>,
      state = [],
      config = \<lparr>StoreAddress = ''consul://localhost:8500'', Ranges = [''10.0.0.1,10.0.0.2,10.0.0.3'']\<rparr>\<rparr>) \<and>
   AllocateVIP
     \<lparr>rangeCursor = \<lparr>addrs = [''10.0.0.1'', ''10.0.0.2'', ''10.0.0.3''], curr = 0\<rparr>,
      state = [],
      config = \<lparr>StoreAddress = ''consul://localhost:8500'', Ranges = [''10.0.0.1,10.0.0.2,10.0.0.3'']\<rparr>\<rparr>
     (zero_Service\<lparr>ID := ''api''\<rparr>) =
   (None, zero_Service\<lparr>ID := ''api'', Host := ''10.0.0.2''\<rparr>,
     \<lparr>rangeCursor = \<lparr>addrs = [''10.0.0.1'', ''10.0.0.2'', ''10.0.0.3''], curr = 0\<rparr>,
      state = [],
      config = \<lparr>StoreAddress = ''consul://localhost:8500'', Ranges = [''10.0.0.1,10.0.0.2,10.0.0.3'']\<rparr>\<rparr>) \<and>
   hd (addrs (rangeCursor (\<lparr>rangeCursor = \<lparr>addrs = [''10.0.0.1'', ''10.0.0.2'', ''10.0.0.3''], curr = 0\<rparr>,
      state = [],
      config = \<lparr>StoreAddress = ''consul://localhost:8500'', Ranges = [''10.0.0.1,10.0.0.2,10.0.0.3'']\<rparr>\<rparr>))) = ''10.0.0.1'' \<and>
   \<not> ipIsAssigned ''10.0.0.1'' (state (\<lparr>rangeCursor = \<lparr>addrs = [''10.0.0.1'', ''10.0.0.2'', ''10.0.0.3''], curr = 0\<rparr>,
      state = [],
      config = \<lparr>StoreAddress = ''consul://localhost:8500'', Ranges = [''10.0.0.1,10.0.0.2,10.0.0.3'']\<rparr>\<rparr>)) \<and>
   ''10.0.0.2'' \<noteq> ''10.0.0.1''"
  by (simp add: AllocateVIP_scan zero_Service_def)

text \<open>
  Claim C10. When \<open>AllocateVIP\<close> returns \<open>ErrNoVipAvailable\<close>, the service it was
  given is unchanged, its \<open>Host\<close> included.
\<close>

theorem AllocateVIP_failure_keeps_service:
  assumes "AllocateVIP i s = (Some ErrNoVipAvailable, s', i')"
  shows "s' = s"
  using assms by (simp add: AllocateVIP_scan split: option.splits)

theorem AllocateVIP_failure_keeps_service_witness:
  "AllocateVIP
     \<lparr>rangeCursor = \<lparr>addrs = [''10.0.0.1'', ''10.0.0.2''], curr = 0\<rparr>,
      state = [zero_Service\<lparr>ID := ''a'', Host := ''10.0.0.2''\<rparr>,
               zero_Service\<lparr>ID := ''b'', Host := ''10.0.0.1''\<rparr>],
      config = \<lparr>StoreAddress = ''etcd://localhost:2379'', Ranges = [''10.0.0.1,10.0.0.2'']\<rparr>\<rparr>
     (zero_Service\<lparr>ID := ''c''\<rparr>) =
   (Some ErrNoVipAvailable, zero_Service\<lparr>ID := ''c''\<rparr>,
     \<lparr>rangeCursor = \<lparr>addrs = [''10.0.0.1'', ''10.0.0.2''], curr = Suc 0\<rparr>,
      state = [zero_Service\<lparr>ID := ''a'', Host := ''10.0.0.2''\<rparr>,
               zero_Service\<lparr>ID := ''b'', Host := ''10.0.0.1''\<rparr>],
      config = \<lparr>StoreAddress = ''etcd://localhost:2379'', Ranges = [''10.0.0.1,10.0.0.2'']\<rparr>\<rparr>)"
proof -
  have h: "AllocateVIP
     \<lparr>rangeCursor = \<lparr>addrs = [''10.0.0.1'', ''10.0.0.2''], curr = 0\<rparr>,
      state = [zero_Service\<lparr>ID := ''a'', Host := ''10.0.0.2''\<rparr>,
               zero_Service\<lparr>ID := ''b'', Host := ''10.0.0.1''\<rparr>],
      config = \<lparr>StoreAddress = ''etcd://localhost:2379'', Ranges = [''10.0.0.1,10.0.0.2'']\<rparr>\<rparr>
     (zero_Service\<lparr>ID := ''c''\<rparr>) =
   (Some ErrNoVipAvailable, zero_Service\<lparr>ID := ''c''\<rparr>,
     \<lparr>rangeCursor = \<lparr>addrs = [''10.0.0.1'', ''10.0.0.2''], curr = Suc 0\<rparr>,
      state = [zero_Service\<lparr>ID := ''a'', Host := ''10.0.0.2''\<rparr>,
               zero_Service\<lparr>ID := ''b'', Host := ''10.0.0.1''\<rparr>],
      config = \<lparr>StoreAddress = ''etcd://localhost:2379'', Ranges = [''10.0.0.1,10.0.0.2'']\<rparr>\<rparr>)"
    by (simp add: AllocateVIP_scan zero_Service_def)
  show ?thesis using h AllocateVIP_failure_keeps_service [OF h] by simp
qed

section \<open>Lemmas on the store\<close>

lemma WatchServices_entries_buf:
  "buf (WatchServices_entries unm entries w) =
     buf w @ map (\<lambda>p. fst (unm (Value p) zero_Service)) entries"
  by (induction entries arbitrary: w) (auto simp: Let_def split: prod.splits option.splits)

lemma WatchServices_entries_sent: "sent (WatchServices_entries unm entries w) = sent w"
  by (induction entries arbitrary: w) (auto simp: Let_def split: prod.splits option.splits)

lemma WatchDestinations_entries_buf:
  "buf (WatchDestinations_entries unm entries w) =
     buf w @ map (\<lambda>p. fst (unm (Value p) zero_Destination)) entries"
  by (induction entries arbitrary: w) (auto simp: Let_def split: prod.splits)

lemma WatchDestinations_entries_sent: "sent (WatchDestinations_entries unm entries w) = sent w"
  by (induction entries arbitrary: w) (auto simp: Let_def split: prod.splits)

lemma broadcast_sent: "sent (broadcast chs snapshot w) = sent w @ map (\<lambda>ch. (ch, snapshot)) chs"
  by (induction chs arbitrary: w) auto

lemma fold_SubscribeServices:
  "servicesChannels (fold SubscribeServices chs s) = servicesChannels s @ chs"
  by (induction chs arbitrary: s) (auto simp: SubscribeServices_def)

lemma WatchServices_cycle_sent:
  "sent (WatchServices_cycle unm s entries w) =
     sent w @ map (\<lambda>ch. (ch, buf w @ map (\<lambda>p. fst (unm (Value p) zero_Service)) entries))
                (servicesChannels s)"
  by (simp add: WatchServices_cycle_def Let_def broadcast_sent WatchServices_entries_sent
      WatchServices_entries_buf)

lemma WatchDestinations_cycle_sent:
  "sent (WatchDestinations_cycle unm s entries w) =
     sent w @ map (\<lambda>ch. (ch, buf w @ map (\<lambda>p. fst (unm (Value p) zero_Destination)) entries))
                (destinationChannels s)"
  by (simp add: WatchDestinations_cycle_def Let_def broadcast_sent WatchDestinations_entries_sent
      WatchDestinations_entries_buf)

lemma WatchServices_cycle_buf: "buf (WatchServices_cycle unm s entries w) = []"
  by (simp add: WatchServices_cycle_def Let_def)

lemma WatchDestinations_cycle_buf: "buf (WatchDestinations_cycle unm s entries w) = []"
  by (simp add: WatchDestinations_cycle_def Let_def)

text \<open>At the head of every iteration of the loop the working slice is empty.\<close>

lemma WatchServices_buf: "buf (WatchServices unm s watchTree) = []"
proof (cases watchTree)
  case (Inl err)
  then show ?thesis by (simp add: WatchServices_def)
next
  case (Inr events)
  have "buf (foldl (\<lambda>w entries. WatchServices_cycle unm s entries w) w0 events) = []"
    if "buf w0 = []" for w0
    using that by (induction events arbitrary: w0) (simp_all add: WatchServices_cycle_buf)
  with Inr show ?thesis by (simp add: WatchServices_def)
qed

lemma fold_SubscribeDestinations:
  "destinationChannels (fold SubscribeDestinations chs s) = destinationChannels s @ chs"
  by (induction chs arbitrary: s) (auto simp: SubscribeDestinations_def)

lemma map_of_filter_key:
  "map_of (filter (\<lambda>(k, v). P k) xs) k = (if P k then map_of xs k else None)"
  by (induction xs) auto

lemma prefix_services_destinations:
  "prefix (''fusis/services/'' @ x) k \<Longrightarrow> \<not> prefix ''fusis/destinations/'' k"
  by (auto simp: prefix_def)

section \<open>Claims on the store\<close>

text \<open>
  Claim C1 does not hold of the code. In a watch cycle that starts from the empty slice,
  the slice sent to a subscriber has one element for every raw entry of the batch, in
  order: the value \<open>unmarshal\<close> left in the zero-initialised entity, whether or not it
  returned an error. An entry whose decode fails is therefore not skipped; it is sent as
  whatever the failed decode left (the zero entity, when it touched nothing). The other
  entries of the batch are decoded and sent all the same.
\<close>

theorem Watch_failed_decode_not_skipped:
  "sent (WatchServices_cycle unm (s\<lparr>servicesChannels := [ch]\<rparr>) entries
           \<lparr>buf = [], sent = [], logged = []\<rparr>) =
     [(ch, map (\<lambda>p. fst (unm (Value p) zero_Service)) entries)] \<and>
   sent (WatchDestinations_cycle unm' (s\<lparr>destinationChannels := [ch]\<rparr>) entries
           \<lparr>buf = [], sent = [], logged = []\<rparr>) =
     [(ch, map (\<lambda>p. fst (unm' (Value p) zero_Destination)) entries)]"
  by (simp add: WatchServices_cycle_sent WatchDestinations_cycle_sent)

text \<open>
  Claim C2, as amended. After a successful \<open>DeleteService\<close> the key
  \<^verbatim>\<open>fusis/services/{id}/config\<close> is gone, and every key under \<^verbatim>\<open>fusis/destinations/\<close>
  holds what it held before, under the deleted service's id as under any other.
\<close>

theorem DeleteService_scope:
  assumes "DeleteService svc s = Inr s'"
  shows "map_of (kv s') (''fusis/services/'' @ GetId svc @ ''/config'') = None \<and>
         (\<forall>k. prefix ''fusis/destinations/'' k \<longrightarrow> map_of (kv s') k = map_of (kv s) k)"
proof -
  from assms have k: "kv s' = filter (\<lambda>(k, v). \<not> prefix (''fusis/services/'' @ GetId svc) k) (kv s)"
    by (auto simp: DeleteService_def kv_DeleteTree_def Let_def split: if_splits)
  have 1: "map_of (kv s') (''fusis/services/'' @ GetId svc @ ''/config'') = None"
    unfolding k by (simp add: map_of_filter_key)
  have 2: "map_of (kv s') k = map_of (kv s) k" if "prefix ''fusis/destinations/'' k" for k
    unfolding k using that prefix_services_destinations[of "GetId svc" k]
    by (auto simp: map_of_filter_key)
  from 1 2 show ?thesis by blast
qed

theorem DeleteService_scope_witness:
  "DeleteService (zero_Service\<lparr>ID := ''a''\<rparr>)
     \<lparr>kv = [(''fusis/services/a/config'', ''A''), (''fusis/destinations/a/d1'', ''D1''),
             (''fusis/destinations/b/d2'', ''D2'')],
      servicesChannels = [], destinationChannels = [], checksChannels = []\<rparr> =
   Inr \<lparr>kv = [(''fusis/destinations/a/d1'', ''D1''), (''fusis/destinations/b/d2'', ''D2'')],
      servicesChannels = [], destinationChannels = [], checksChannels = []\<rparr> \<and>
   map_of [(''fusis/destinations/a/d1'', ''D1''), (''fusis/destinations/b/d2'', ''D2'')]
     ''fusis/services/a/config'' = None \<and>
   map_of [(''fusis/destinations/a/d1'', ''D1''), (''fusis/destinations/b/d2'', ''D2'')]
     ''fusis/destinations/a/d1'' = Some ''D1'' \<and>
   map_of [(''fusis/destinations/a/d1'', ''D1''), (''fusis/destinations/b/d2'', ''D2'')]
     ''fusis/destinations/b/d2'' = Some ''D2''"
proof -
  have h: "DeleteService (zero_Service\<lparr>ID := ''a''\<rparr>)
     \<lparr>kv = [(''fusis/services/a/config'', ''A''), (''fusis/destinations/a/d1'', ''D1''),
             (''fusis/destinations/b/d2'', ''D2'')],
      servicesChannels = [], destinationChannels = [], checksChannels = []\<rparr> =
   Inr \<lparr>kv = [(''fusis/destinations/a/d1'', ''D1''), (''fusis/destinations/b/d2'', ''D2'')],
      servicesChannels = [], destinationChannels = [], checksChannels = []\<rparr>"
    by (simp add: DeleteService_def kv_DeleteTree_def GetId_def zero_Service_def)
  show ?thesis using h DeleteService_scope [OF h] by simp
qed

text \<open>
  Claim C2 as stated fails. After \<open>DeleteService\<close> of the service \<open>a\<close> succeeds, the
  store still holds \<^verbatim>\<open>fusis/destinations/a/d1\<close>, the key \<open>AddDestination\<close> writes for
  the destination \<open>d1\<close> of \<open>a\<close>.
\<close>

theorem DeleteService_keeps_destinations_counterexample:
  "DeleteService (zero_Service\<lparr>ID := ''a''\<rparr>)
     \<lparr>kv = [(''fusis/services/a/config'', ''A''), (''fusis/destinations/a/d1'', ''D1'')],
      servicesChannels = [], destinationChannels = [], checksChannels = []\<rparr> =
   Inr \<lparr>kv = [(''fusis/destinations/a/d1'', ''D1'')],
      servicesChannels = [], destinationChannels = [], checksChannels = []\<rparr> \<and>
   ''fusis/destinations/a/d1'' =
     ''fusis/destinations/'' @ GetId (zero_Service\<lparr>ID := ''a''\<rparr>) @ ''/'' @
       Dst_GetId (zero_Destination\<lparr>DstID := ''d1''\<rparr>)"
  by (simp add: DeleteService_def kv_DeleteTree_def GetId_def Dst_GetId_def zero_Service_def
      zero_Destination_def)

text \<open>
  Claim C5. In a watch cycle every registered channel is sent the same slice, the one
  decoded from the batch, in registration order: the channels already registered, then
  the \<open>chs\<close> registered one by one through the subscribe operation. The sends of the
  cycle are appended to the sends made before it. The same holds of the destinations.
\<close>

theorem WatchServices_fan_out:
  "sent (WatchServices_cycle unm (fold SubscribeServices chs s) entries w) =
     sent w @ map (\<lambda>ch. (ch, buf (WatchServices_entries unm entries w)))
                (servicesChannels s @ chs) \<and>
   sent (WatchDestinations_cycle unm' (fold SubscribeDestinations chs s) entries w') =
     sent w' @ map (\<lambda>ch. (ch, buf (WatchDestinations_entries unm' entries w')))
                (destinationChannels s @ chs)"
  by (simp add: WatchServices_cycle_sent fold_SubscribeServices WatchServices_entries_buf
      WatchDestinations_cycle_sent fold_SubscribeDestinations WatchDestinations_entries_buf)

text \<open>
  Claim C9. The scheme of a connection string is the \<open>Scheme\<close> of the URL that
  \<^verbatim>\<open>url.Parse\<close> returns for it. When it is neither \<^verbatim>\<open>consul\<close> nor \<^verbatim>\<open>etcd\<close>, \<open>New\<close>
  fails with \<open>ErrUnsupportedStore\<close>; when it is one of the two, \<open>New\<close> does not fail
  with that error, whatever \<^verbatim>\<open>libkv.NewStore\<close> does.
\<close>

theorem New_scheme:
  assumes "url_Parse (StoreAddress cfg) = Inr u"
  shows "(Scheme u \<noteq> ''consul'' \<and> Scheme u \<noteq> ''etcd'' \<longrightarrow>
            New url_Parse libkv_NewStore cfg = Inl ErrUnsupportedStore) \<and>
         (Scheme u = ''consul'' \<or> Scheme u = ''etcd'' \<longrightarrow>
            New url_Parse libkv_NewStore cfg \<noteq> Inl ErrUnsupportedStore)"
  using assms by (auto simp: New_def Let_def split: sum.splits)

theorem New_scheme_witness:
  "New (\<lambda>a. Inr \<lparr>Scheme = takeWhile (\<lambda>c. c \<noteq> CHR '':'') a, URL_Host = drop 3 (dropWhile (\<lambda>c. c \<noteq> CHR '':'') a)\<rparr>)
       (\<lambda>backend hosts. Inr [])
       \<lparr>StoreAddress = ''redis://localhost:6379'', Ranges = []\<rparr> = Inl ErrUnsupportedStore \<and>
   New (\<lambda>a. Inr \<lparr>Scheme = takeWhile (\<lambda>c. c \<noteq> CHR '':'') a, URL_Host = drop 3 (dropWhile (\<lambda>c. c \<noteq> CHR '':'') a)\<rparr>)
       (\<lambda>backend hosts. Inr [])
       \<lparr>StoreAddress = ''consul://localhost:8500'', Ranges = []\<rparr> =
     Inr \<lparr>kv = [], servicesChannels = [], destinationChannels = [], checksChannels = []\<rparr> \<and>
   New (\<lambda>a. Inr \<lparr>Scheme = takeWhile (\<lambda>c. c \<noteq> CHR '':'') a, URL_Host = drop 3 (dropWhile (\<lambda>c. c \<noteq> CHR '':'') a)\<rparr>)
       (\<lambda>backend hosts. Inl (Foreign ''connection refused''))
       \<lparr>StoreAddress = ''etcd://localhost:2379'', Ranges = []\<rparr> =
     Inl (Wrap (Foreign ''connection refused'') ''Cannot create store consul'')"
  using
    New_scheme [of "\<lambda>a. Inr \<lparr>Scheme = takeWhile (\<lambda>c. c \<noteq> CHR '':'') a, URL_Host = drop 3 (dropWhile (\<lambda>c. c \<noteq> CHR '':'') a)\<rparr>"
      "\<lparr>StoreAddress = ''redis://localhost:6379'', Ranges = []\<rparr>"
      "\<lparr>Scheme = ''redis'', URL_Host = ''localhost:6379''\<rparr>" "\<lambda>backend hosts. Inr []"]
  by (simp add: New_def)

end
